theory Spec2Isabelle
  imports Main
begin

section \<open>JSON values and Python's string conversion\<close>

text \<open>
  The value \<^verbatim>\<open>json.loads\<close> returns. A Python \<^verbatim>\<open>dict\<close> keeps insertion order, so a
  mapping is an association list (its keys are distinct in every value the parser
  builds). Floating point is not modelled: a float is carried as the text that
  \<^verbatim>\<open>str\<close> gives for it.
\<close>

datatype json =
    JNull
  | JBool bool
  | JInt int
  | JFloat string
  | JStr string
  | JList "json list"
  | JDict "(string \<times> json) list"

datatype error =
    AttributeError string
  | Exception string
  | CalledProcessError string
  | EnvironmentError string
  | UnicodeDecodeError string

text \<open>The message \<^verbatim>\<open>str(e)\<close> of an exception, which the top level prints.\<close>

fun str_error :: "error \<Rightarrow> string" where
  "str_error (AttributeError m) = m"
| "str_error (Exception m) = m"
| "str_error (CalledProcessError m) = m"
| "str_error (EnvironmentError m) = m"
| "str_error (UnicodeDecodeError m) = m"

definition digit_char :: "nat \<Rightarrow> char" where
  "digit_char d = ''0123456789'' ! d"

fun str_nat :: "nat \<Rightarrow> string" where
  "str_nat n = (if n < 10 then [digit_char n] else str_nat (n div 10) @ [digit_char (n mod 10)])"

declare str_nat.simps [simp del]

definition str_int :: "int \<Rightarrow> string" where
  "str_int i = (if i < 0 then ''-'' @ str_nat (nat (- i)) else str_nat (nat i))"

text \<open>
  \<^verbatim>\<open>isinstance(v, (dict, list))\<close>, and \<^verbatim>\<open>type(v).__name__\<close> as it appears in the
  message of an \<^verbatim>\<open>AttributeError\<close>.
\<close>

fun is_dict_or_list :: "json \<Rightarrow> bool" where
  "is_dict_or_list (JDict d) = True"
| "is_dict_or_list (JList l) = True"
| "is_dict_or_list v = False"

fun type_name :: "json \<Rightarrow> string" where
  "type_name JNull = ''NoneType''"
| "type_name (JBool b) = ''bool''"
| "type_name (JInt i) = ''int''"
| "type_name (JFloat f) = ''float''"
| "type_name (JStr s) = ''str''"
| "type_name (JList l) = ''list''"
| "type_name (JDict d) = ''dict''"

definition no_attribute :: "json \<Rightarrow> string \<Rightarrow> error" where
  "no_attribute v a =
     AttributeError ([CHR 0x27] @ type_name v @ [CHR 0x27] @ '' object has no attribute ''
                     @ [CHR 0x27] @ a @ [CHR 0x27])"

text \<open>
  \<^verbatim>\<open>str(v)\<close>, which is also what an f-string puts in place of \<^verbatim>\<open>{v}\<close>. The text of
  a dict or a list is Python's \<^verbatim>\<open>repr\<close> of the container, which is not modelled:
  it is the parameter \<open>cs\<close>.
\<close>

fun py_str :: "(json \<Rightarrow> string) \<Rightarrow> json \<Rightarrow> string" where
  "py_str cs JNull = ''None''"
| "py_str cs (JBool b) = (if b then ''True'' else ''False'')"
| "py_str cs (JInt i) = str_int i"
| "py_str cs (JFloat f) = f"
| "py_str cs (JStr s) = s"
| "py_str cs (JList l) = cs (JList l)"
| "py_str cs (JDict d) = cs (JDict d)"

text \<open>\<^verbatim>\<open>sep.join(xs)\<close>\<close>

fun str_join :: "string \<Rightarrow> string list \<Rightarrow> string" where
  "str_join sep [] = ''''"
| "str_join sep [x] = x"
| "str_join sep (x # y # ys) = x @ sep @ str_join sep (y # ys)"

section \<open>The schema-to-markdown converter\<close>

text \<open>
  \<^verbatim>\<open>json_to_markdown_table\<close>. The loop carries \<open>markdown\<close> and
  \<open>create_table_heading\<close>. \<^verbatim>\<open>table_item.keys()\<close> raises on an element that is not a
  dict. The comprehension looks every key of the element up in the element itself, so
  its values are the element's values in key order.
\<close>

definition table_cell :: "(json \<Rightarrow> string) \<Rightarrow> json \<Rightarrow> string" where
  "table_cell cs v = (if \<not> is_dict_or_list v then py_str cs v else ''...'')"

fun table_loop :: "(json \<Rightarrow> string) \<Rightarrow> json list \<Rightarrow> string \<Rightarrow> bool \<Rightarrow> error + string" where
  "table_loop cs [] markdown create_table_heading = Inr markdown"
| "table_loop cs (JDict table_item # rest) markdown create_table_heading =
     (let keys = map fst table_item;
          markdown1 =
            (if \<not> create_table_heading
             then (''| '' @ str_join '' | '' keys @ '' |\<newline>'')
                  @ (''| '' @ str_join '' | '' (replicate (length keys) ''---'') @ '' |\<newline>'')
             else markdown);
          values = map (\<lambda>(key, v). table_cell cs v) table_item;
          markdown2 = markdown1 @ (''| '' @ str_join '' | '' values @ '' |\<newline>'')
      in table_loop cs rest markdown2 True)"
| "table_loop cs (table_item # rest) markdown create_table_heading =
     Inl (no_attribute table_item ''keys'')"

definition json_to_markdown_table :: "(json \<Rightarrow> string) \<Rightarrow> json list \<Rightarrow> error + string" where
  "json_to_markdown_table cs table_list = table_loop cs table_list '''' False"

text \<open>
  \<^verbatim>\<open>json_to_markdown\<close>. \<open>markdown_loop\<close> is the \<^verbatim>\<open>for\<close> loop over
  \<^verbatim>\<open>json_data.items()\<close> with the accumulator \<open>markdown\<close>. The result of the
  recursive call on a nested dict is dropped, but an exception it raises propagates.
\<close>

function json_to_markdown :: "(json \<Rightarrow> string) \<Rightarrow> json \<Rightarrow> error + string"
  and markdown_loop :: "(json \<Rightarrow> string) \<Rightarrow> (string \<times> json) list \<Rightarrow> string \<Rightarrow> error + string"
where
  "json_to_markdown cs json_data =
     (case json_data of
        JDict items \<Rightarrow> markdown_loop cs items ''''
      | _ \<Rightarrow> Inl (no_attribute json_data ''items''))"
| "markdown_loop cs [] markdown = Inr markdown"
| "markdown_loop cs ((key, v) # rest) markdown =
     (if key = ''title''
      then markdown_loop cs rest (markdown @ (''# '' @ py_str cs v @ ''\<newline>'') @ ''\<newline>'')
      else
        (case v of
           JDict d \<Rightarrow>
             (case json_to_markdown cs v of
                Inl e \<Rightarrow> Inl e
              | Inr discarded \<Rightarrow> markdown_loop cs rest (markdown @ ''\<newline>''))
         | JList l \<Rightarrow>
             (case json_to_markdown_table cs l of
                Inl e \<Rightarrow> Inl e
              | Inr table \<Rightarrow>
                  markdown_loop cs rest
                    (markdown @ (''## '' @ key @ ''\<newline>'') @ ''\<newline>'' @ table @ ''\<newline>''))
         | _ \<Rightarrow>
             markdown_loop cs rest
               (markdown @ (''## '' @ key @ ''\<newline>'') @ ''\<newline>''
                  @ ('' '' @ py_str cs v @ ''\<newline>'') @ ''\<newline>'')))"
  by pat_completeness auto
termination
  by (relation "measure (\<lambda>x. case x of
         Inl (cs, j) \<Rightarrow> 2 * size j + 1
       | Inr (cs, items, markdown) \<Rightarrow> 2 * size_list (size_prod (\<lambda>k. 0) size) items)")
     auto

section \<open>The outside world\<close>

text \<open>
  Every call that leaves the process (the file system, \<^verbatim>\<open>subprocess.run\<close>, the
  completion endpoint) is answered by the environment, and is recorded, in order, in a
  trace of events. \<open>Print\<close> is a call of \<^verbatim>\<open>print\<close> by the script. An answer \<open>Inl e\<close> is the
  exception the call raises: \<open>load_template\<close> is \<^verbatim>\<open>open\<close> and \<^verbatim>\<open>json.load\<close> on the
  template, \<open>create_completion\<close> is the request and the parsing of its response,
  \<open>run_checked\<close> is \<^verbatim>\<open>subprocess.run(..., check=True)\<close>. For the two commands whose
  output is captured, \<open>run_git_diff\<close> and \<open>run_git_branch_list\<close> give what the child
  process did: it could not be started (\<open>Inl e\<close>), or it ended with an exit status and
  the bytes it wrote. Nothing is assumed about what git answers. \<open>decode_output\<close> is
  the strict decoding of bytes with the encoding of the locale.
\<close>

record raw_process =
  raw_returncode :: int
  raw_stdout :: string
  raw_stderr :: string

record completed_process =
  returncode :: int
  stdout :: string
  stderr :: string

datatype event =
    PathExists string
  | OpenRead string
  | Run "string list"
  | CompletionCall json string
  | OpenWrite string string
  | Print string

record env =
  OUTPUT_PATH :: string
  TEMPLATE_PATH :: string
  BRANCH_NAME :: string
  GITHUB_TOKEN :: string
  GITHUB_REPOSITORY :: string
  path_exists :: "string \<Rightarrow> bool"
  load_template :: "error + json"
  decode_output :: "string \<Rightarrow> error + string"
  run_git_diff :: "error + raw_process"
  run_git_branch_list :: "string \<Rightarrow> error + raw_process"
  create_completion :: "json \<Rightarrow> string \<Rightarrow> error + json"
  write_file :: "string \<Rightarrow> string \<Rightarrow> error + unit"
  run_checked :: "string list \<Rightarrow> error + unit"
  container_str :: "json \<Rightarrow> string"

text \<open>
  \<^verbatim>\<open>subprocess.run(cmd, capture_output=True, text=True)\<close>. In text mode the captured
  bytes of both streams are decoded, which raises on bytes the encoding rejects, and
  then go through \<^verbatim>\<open>data.replace("\r\n", "\n").replace("\r", "\n")\<close>, before the
  completed process is returned.
\<close>

fun replace_crlf :: "string \<Rightarrow> string" where
  "replace_crlf (c # d # s) =
     (if c = CHR 0x0D \<and> d = CHR ''\<newline>'' then CHR ''\<newline>'' # replace_crlf s
      else c # replace_crlf (d # s))"
| "replace_crlf s = s"

definition replace_cr :: "string \<Rightarrow> string" where
  "replace_cr s = map (\<lambda>c. if c = CHR 0x0D then CHR ''\<newline>'' else c) s"

definition translate_newlines :: "(string \<Rightarrow> error + string) \<Rightarrow> string \<Rightarrow> error + string" where
  "translate_newlines decode data =
     (case decode data of
        Inl e \<Rightarrow> Inl e
      | Inr text \<Rightarrow> Inr (replace_cr (replace_crlf text)))"

definition subprocess_run_text ::
  "(string \<Rightarrow> error + string) \<Rightarrow> error + raw_process \<Rightarrow> error + completed_process"
where
  "subprocess_run_text decode outcome =
     (case outcome of
        Inl e \<Rightarrow> Inl e
      | Inr p \<Rightarrow>
          (case translate_newlines decode (raw_stdout p) of
             Inl e \<Rightarrow> Inl e
           | Inr out \<Rightarrow>
               (case translate_newlines decode (raw_stderr p) of
                  Inl e \<Rightarrow> Inl e
                | Inr err \<Rightarrow>
                    Inr \<lparr> returncode = raw_returncode p, stdout = out, stderr = err \<rparr>)))"

text \<open>
  \<^verbatim>\<open>s.strip()\<close>, for the whitespace of ASCII (what git writes around a branch name
  is spaces and line breaks).
\<close>

definition is_space :: "char \<Rightarrow> bool" where
  "is_space c = (c \<in> set [CHR '' '', CHR 0x09, CHR ''\<newline>'', CHR 0x0B, CHR 0x0C, CHR 0x0D,
                          CHR 0x1C, CHR 0x1D, CHR 0x1E, CHR 0x1F])"

definition py_strip :: "string \<Rightarrow> string" where
  "py_strip s = rev (dropWhile is_space (rev (dropWhile is_space s)))"

section \<open>The diff source\<close>

text \<open>\<^verbatim>\<open>get_commit_diff\<close>, with its call of \<^verbatim>\<open>git diff HEAD~1 HEAD\<close>.\<close>

definition get_commit_diff :: "env \<Rightarrow> error + string" where
  "get_commit_diff env =
     (case subprocess_run_text (decode_output env) (run_git_diff env) of
        Inl e \<Rightarrow> Inl e
      | Inr result \<Rightarrow>
          (if returncode result \<noteq> 0 then Inl (Exception ''Failed to get git diff.'')
           else Inr (stdout result)))"

section \<open>The branch publisher\<close>

text \<open>
  \<^verbatim>\<open>check_branch_exists\<close>, with its call of \<^verbatim>\<open>git branch --list branch_name\<close>: the
  answer is whether the stripped output is non-empty, whatever made git write it.
\<close>

definition check_branch_exists :: "env \<Rightarrow> string \<Rightarrow> error + bool" where
  "check_branch_exists env branch_name =
     (case subprocess_run_text (decode_output env) (run_git_branch_list env branch_name) of
        Inl e \<Rightarrow> Inl e
      | Inr result \<Rightarrow> Inr (py_strip (stdout result) \<noteq> ''''))"

definition branch_probe :: "string \<Rightarrow> event" where
  "branch_probe branch_name = Run [''git'', ''branch'', ''--list'', branch_name]"

text \<open>
  The \<^verbatim>\<open>while\<close> loop of \<^verbatim>\<open>get_unique_branch_name\<close>, with its variables
  \<open>branch_name\<close> and \<open>counter\<close> (a natural number: it starts at 1 and only grows) and
  the trace, to which every existence check is added. Nothing bounds the number of
  rounds when git keeps answering with some output: the result \<open>None\<close> is the loop
  that does not end. An exception of the check leaves the loop.
\<close>

partial_function (option) get_unique_branch_loop ::
  "env \<Rightarrow> string \<Rightarrow> string \<Rightarrow> nat \<Rightarrow> event list \<Rightarrow> ((error + string) \<times> event list) option"
where
  "get_unique_branch_loop env base_branch_name branch_name counter tr =
     (case check_branch_exists env branch_name of
        Inl e \<Rightarrow> Some (Inl e, tr @ [branch_probe branch_name])
      | Inr found \<Rightarrow>
          (if found
           then get_unique_branch_loop env base_branch_name
                  (base_branch_name @ ''-'' @ str_nat counter) (counter + 1)
                  (tr @ [branch_probe branch_name])
           else Some (Inr branch_name, tr @ [branch_probe branch_name])))"

definition get_unique_branch_name ::
  "env \<Rightarrow> string \<Rightarrow> event list \<Rightarrow> ((error + string) \<times> event list) option"
where
  "get_unique_branch_name env base_branch_name tr =
     get_unique_branch_loop env base_branch_name base_branch_name 1 tr"

text \<open>
  A sequence of \<^verbatim>\<open>subprocess.run(..., check=True)\<close> calls: the first one that fails
  raises, and the calls after it are not made.
\<close>

fun run_all ::
  "(string list \<Rightarrow> error + unit) \<Rightarrow> string list list \<Rightarrow> event list \<Rightarrow> (error + unit) \<times> event list"
where
  "run_all run [] tr = (Inr (), tr)"
| "run_all run (cmd # cmds) tr =
     (case run cmd of
        Inl e \<Rightarrow> (Inl e, tr @ [Run cmd])
      | Inr u \<Rightarrow> run_all run cmds (tr @ [Run cmd]))"

definition set_git_remote_with_token :: "env \<Rightarrow> string list" where
  "set_git_remote_with_token env =
     [''git'', ''remote'', ''set-url'', ''origin'',
      ''https://github-actions:'' @ GITHUB_TOKEN env @ ''@github.com/'' @ GITHUB_REPOSITORY env]"

text \<open>
  The commands \<^verbatim>\<open>commit_and_push\<close> runs once the branch name is chosen, in the order
  of the source.
\<close>

definition publish_commands :: "env \<Rightarrow> string \<Rightarrow> string \<Rightarrow> string list list" where
  "publish_commands env unique_branch_name file_path =
     [[''git'', ''config'', ''--local'', ''user.name'', ''github-actions[bot]''],
      [''git'', ''config'', ''--local'', ''user.email'',
       ''github-actions[bot]@users.noreply.github.com''],
      set_git_remote_with_token env,
      [''git'', ''checkout'', ''-b'', unique_branch_name],
      [''git'', ''add'', file_path],
      [''git'', ''commit'', ''-m'', ''Update '' @ file_path @ '' with latest documentation''],
      [''git'', ''push'', ''origin'', unique_branch_name]]"

definition commit_and_push ::
  "env \<Rightarrow> string \<Rightarrow> string \<Rightarrow> event list \<Rightarrow> ((error + unit) \<times> event list) option"
where
  "commit_and_push env branch_name file_path tr =
     (case get_unique_branch_name env branch_name tr of
        None \<Rightarrow> None
      | Some (Inl e, tr1) \<Rightarrow> Some (Inl e, tr1)
      | Some (Inr unique_branch_name, tr1) \<Rightarrow>
          Some (run_all (run_checked env)
                  (publish_commands env unique_branch_name file_path) tr1))"

section \<open>The completion client and the pipeline\<close>

text \<open>
  \<^verbatim>\<open>generate_readme\<close>: the completion call (\<^verbatim>\<open>generate_json\<close>, answered by the
  environment with the parsed response or with the exception raised), then the
  converter.
\<close>

definition generate_readme ::
  "env \<Rightarrow> json \<Rightarrow> string \<Rightarrow> event list \<Rightarrow> (error + string) \<times> event list"
where
  "generate_readme env template commit_diff tr =
     (case create_completion env template commit_diff of
        Inl e \<Rightarrow> (Inl e, tr @ [CompletionCall template commit_diff])
      | Inr json_data \<Rightarrow>
          (json_to_markdown (container_str env) json_data,
           tr @ [CompletionCall template commit_diff]))"

definition git_diff_cmd :: "string list" where
  "git_diff_cmd = [''git'', ''diff'', ''HEAD~1'', ''HEAD'']"

text \<open>The body of the \<^verbatim>\<open>try\<close> block of the script.\<close>

definition main_try :: "env \<Rightarrow> ((error + unit) \<times> event list) option" where
  "main_try env =
     (if path_exists env (OUTPUT_PATH env)
      then Some (Inr (), [PathExists (OUTPUT_PATH env),
                          Print (OUTPUT_PATH env @ '' already exists. Skipping generation.'')])
      else
        (case load_template env of
           Inl e \<Rightarrow> Some (Inl e, [PathExists (OUTPUT_PATH env), OpenRead (TEMPLATE_PATH env)])
         | Inr template \<Rightarrow>
             (case get_commit_diff env of
                Inl e \<Rightarrow>
                  Some (Inl e, [PathExists (OUTPUT_PATH env), OpenRead (TEMPLATE_PATH env),
                                Run git_diff_cmd])
              | Inr commit_diff \<Rightarrow>
                  (case generate_readme env template commit_diff
                          [PathExists (OUTPUT_PATH env), OpenRead (TEMPLATE_PATH env),
                           Run git_diff_cmd] of
                     (Inl e, tr) \<Rightarrow> Some (Inl e, tr)
                   | (Inr readme_content, tr) \<Rightarrow>
                       (case write_file env (OUTPUT_PATH env) readme_content of
                          Inl e \<Rightarrow>
                            Some (Inl e, tr @ [OpenWrite (OUTPUT_PATH env) readme_content])
                        | Inr u \<Rightarrow>
                            commit_and_push env (BRANCH_NAME env) (OUTPUT_PATH env)
                              (tr @ [OpenWrite (OUTPUT_PATH env) readme_content]))))))"

text \<open>
  The script, from its \<^verbatim>\<open>try\<close> statement on (the module-level statements before it,
  which read the environment variables and construct the client, have been executed):
  the \<^verbatim>\<open>except Exception\<close> handler prints the message, and the script ends after the
  \<^verbatim>\<open>try\<close> statement, so the exit status is 0 on both paths. The result is the trace
  and the exit status, or \<open>None\<close> for a run that does not end.
\<close>

definition main :: "env \<Rightarrow> (event list \<times> int) option" where
  "main env =
     (case main_try env of
        None \<Rightarrow> None
      | Some (Inl e, tr) \<Rightarrow> Some (tr @ [Print (''Error: '' @ str_error e)], 0)
      | Some (Inr u, tr) \<Rightarrow> Some (tr, 0))"

section \<open>Notions the properties are stated with\<close>

text \<open>
  The three kinds of row of a markdown table, for one element of the sequence: its
  keys, one \<open>---\<close> per key, and its cells.
\<close>

definition header_row :: "(string \<times> json) list \<Rightarrow> string" where
  "header_row item = ''| '' @ str_join '' | '' (map fst item) @ '' |\<newline>''"

definition separator_row :: "(string \<times> json) list \<Rightarrow> string" where
  "separator_row item = ''| '' @ str_join '' | '' (replicate (length item) ''---'') @ '' |\<newline>''"

definition data_row :: "(json \<Rightarrow> string) \<Rightarrow> (string \<times> json) list \<Rightarrow> string" where
  "data_row cs item =
     ''| '' @ str_join '' | '' (map (\<lambda>(key, v). if is_dict_or_list v then ''...'' else py_str cs v) item)
       @ '' |\<newline>''"

text \<open>
  What one pass of the loop of \<^verbatim>\<open>json_to_markdown\<close> appends for a key, and the
  blocks of all keys in order; \<open>markdown_loop_blocks\<close> below shows that the loop
  computes exactly this.
\<close>

fun key_block :: "(json \<Rightarrow> string) \<Rightarrow> string \<times> json \<Rightarrow> error + string" where
  "key_block cs (key, v) =
     (if key = ''title'' then Inr (''# '' @ py_str cs v @ ''\<newline>'' @ ''\<newline>'')
      else
        (case v of
           JDict d \<Rightarrow> (case json_to_markdown cs v of Inl e \<Rightarrow> Inl e | Inr discarded \<Rightarrow> Inr ''\<newline>'')
         | JList l \<Rightarrow>
             (case json_to_markdown_table cs l of
                Inl e \<Rightarrow> Inl e
              | Inr table \<Rightarrow> Inr (''## '' @ key @ ''\<newline>'' @ ''\<newline>'' @ table @ ''\<newline>''))
         | _ \<Rightarrow> Inr (''## '' @ key @ ''\<newline>'' @ ''\<newline>'' @ '' '' @ py_str cs v @ ''\<newline>'' @ ''\<newline>'')))"

fun blocks :: "(json \<Rightarrow> string) \<Rightarrow> (string \<times> json) list \<Rightarrow> error + string" where
  "blocks cs [] = Inr ''''"
| "blocks cs (kv # rest) =
     (case key_block cs kv of
        Inl e \<Rightarrow> Inl e
      | Inr b \<Rightarrow> (case blocks cs rest of Inl e \<Rightarrow> Inl e | Inr m \<Rightarrow> Inr (b @ m)))"

text \<open>The first line of a text: everything before its first line break.\<close>

definition first_line :: "string \<Rightarrow> string" where
  "first_line s = takeWhile (\<lambda>c. c \<noteq> CHR ''\<newline>'') s"

text \<open>
  The lines of a text, as \<^verbatim>\<open>s.split("\n")\<close> gives them: a text that ends with a
  line break has an empty last line.
\<close>

fun lines_of :: "string \<Rightarrow> string list" where
  "lines_of [] = [[]]"
| "lines_of (c # s) =
     (if c = CHR ''\<newline>'' then [] # lines_of s
      else (case lines_of s of [] \<Rightarrow> [[c]] | l # ls \<Rightarrow> (c # l) # ls))"

text \<open>
  The structured document of the data model: the value of a key is a scalar, a mapping
  that is again such a document, or a sequence of mappings that all have the keys of
  the first one.
\<close>

fun is_dict :: "json \<Rightarrow> bool" where
  "is_dict (JDict d) = True"
| "is_dict v = False"

fun keys_of :: "json \<Rightarrow> string list" where
  "keys_of (JDict d) = map fst d"
| "keys_of v = []"

definition uniform_mappings :: "json list \<Rightarrow> bool" where
  "uniform_mappings l = list_all (\<lambda>item. is_dict item \<and> keys_of item = keys_of (hd l)) l"

function structured_document :: "(string \<times> json) list \<Rightarrow> bool" where
  "structured_document [] = True"
| "structured_document ((key, v) # rest) =
     ((case v of
         JDict d \<Rightarrow> structured_document d
       | JList l \<Rightarrow> uniform_mappings l
       | _ \<Rightarrow> True)
      \<and> structured_document rest)"
  by pat_completeness auto
termination
  by (relation "measure (size_list (size_prod (\<lambda>k. 0) size))") auto

text \<open>
  The lines the script itself writes with \<^verbatim>\<open>print\<close>, in order. The git commands of
  the publisher run without \<^verbatim>\<open>capture_output\<close> and write to the same streams; what
  they write is not part of the model.
\<close>

fun print_calls :: "event list \<Rightarrow> string list" where
  "print_calls [] = []"
| "print_calls (Print s # tr) = s # print_calls tr"
| "print_calls (e # tr) = print_calls tr"


text \<open>
  Inputs for the closed examples. None of the examples formats a dict or a list with
  \<^verbatim>\<open>str\<close>, so the text chosen for containers does not matter. \<open>ascii_decode\<close> is the
  \<open>ascii\<close> codec, which rejects every byte from 128 on (so does UTF-8 for the byte
  \<open>0xFF\<close>); its message is shortened. \<open>plain_branch_list\<close> is git's answer to
  \<^verbatim>\<open>git branch --list name\<close> for a name without pattern characters in a repository
  with the local branches \<open>bs\<close>: the branch, indented, when it exists.
\<close>

definition sample_container_str :: "json \<Rightarrow> string" where
  "sample_container_str v = ''{...}''"

definition ascii_decode :: "string \<Rightarrow> error + string" where
  "ascii_decode data =
     (if list_all (\<lambda>c. (of_char c :: nat) < 128) data then Inr data
      else Inl (UnicodeDecodeError ''ordinal not in range(128)''))"

definition plain_branch_list :: "string list \<Rightarrow> string \<Rightarrow> error + raw_process" where
  "plain_branch_list bs name =
     Inr \<lparr> raw_returncode = 0,
           raw_stdout = (if name \<in> set bs then ''  '' @ name @ ''\<newline>'' else ''''),
           raw_stderr = '''' \<rparr>"

definition sample_env :: "bool \<Rightarrow> int \<Rightarrow> env" where
  "sample_env exists code =
     \<lparr> OUTPUT_PATH = ''README.md'',
       TEMPLATE_PATH = ''template.json'',
       BRANCH_NAME = ''doc-update'',
       GITHUB_TOKEN = ''t'',
       GITHUB_REPOSITORY = ''o/r'',
       path_exists = (\<lambda>p. exists),
       load_template = Inr (JDict []),
       decode_output = Inr,
       run_git_diff = Inr \<lparr> raw_returncode = code, raw_stdout = ''diff'', raw_stderr = '''' \<rparr>,
       run_git_branch_list = plain_branch_list [''doc-update'', ''doc-update-1''],
       create_completion = (\<lambda>template commit_diff. Inr (JDict [(''title'', JStr ''Foo'')])),
       write_file = (\<lambda>p content. Inr ()),
       run_checked = (\<lambda>cmd. Inr ()),
       container_str = sample_container_str \<rparr>"

text \<open>
  Two more environments: one in which the push is refused, one in which the completion
  request fails.
\<close>

definition sample_env_push_fails :: env where
  "sample_env_push_fails =
     (sample_env False 0)
       \<lparr> run_checked := (\<lambda>cmd. if cmd = [''git'', ''push'', ''origin'', ''doc-update-2'']
                                then Inl (CalledProcessError ''push failed'') else Inr ()) \<rparr>"

definition sample_env_no_completion :: env where
  "sample_env_no_completion =
     (sample_env False 0)
       \<lparr> create_completion := (\<lambda>template commit_diff. Inl (EnvironmentError ''no connection'')) \<rparr>"

section \<open>Decimal numerals\<close>




section \<open>The converter, block by block\<close>

lemma table_cell_eq: "table_cell cs v = (if is_dict_or_list v then ''...'' else py_str cs v)"
  by (simp add: table_cell_def)

lemma table_loop_rows:
  "table_loop cs (map JDict rows) markdown True = Inr (markdown @ concat (map (data_row cs) rows))"
  by (induction rows arbitrary: markdown)
     (simp_all add: data_row_def table_cell_eq Let_def case_prod_unfold)

lemma json_to_markdown_table_rows:
  "json_to_markdown_table cs (JDict r # map JDict rs)
     = Inr (header_row r @ separator_row r @ data_row cs r @ concat (map (data_row cs) rs))"
  unfolding json_to_markdown_table_def
  by (simp add: table_loop_rows Let_def header_row_def separator_row_def data_row_def
        table_cell_eq case_prod_unfold)

lemma json_to_markdown_table_empty: "json_to_markdown_table cs [] = Inr ''''"
  by (simp add: json_to_markdown_table_def)

lemma markdown_loop_blocks:
  "markdown_loop cs items markdown
     = (case blocks cs items of Inl e \<Rightarrow> Inl e | Inr m \<Rightarrow> Inr (markdown @ m))"
proof (induction items arbitrary: markdown)
  case Nil
  show ?case by simp
next
  case (Cons kv rest)
  obtain key v where kv: "kv = (key, v)" by (cases kv)
  show ?case
    unfolding kv
    by (cases v) (simp_all add: Cons.IH split: sum.splits)
qed

lemma json_to_markdown_blocks: "json_to_markdown cs (JDict items) = blocks cs items"
  by (simp add: markdown_loop_blocks split: sum.splits)

lemma blocks_append:
  "blocks cs (xs @ ys)
     = (case blocks cs xs of
          Inl e \<Rightarrow> Inl e
        | Inr a \<Rightarrow> (case blocks cs ys of Inl e \<Rightarrow> Inl e | Inr b \<Rightarrow> Inr (a @ b)))"
  by (induction xs) (simp_all split: sum.splits)

lemma blocks_split:
  "blocks cs (pre @ kv # post)
     = (case blocks cs pre of
          Inl e \<Rightarrow> Inl e
        | Inr a \<Rightarrow>
            (case key_block cs kv of
               Inl e \<Rightarrow> Inl e
             | Inr b \<Rightarrow> (case blocks cs post of Inl e \<Rightarrow> Inl e | Inr c \<Rightarrow> Inr (a @ b @ c))))"
  by (simp add: blocks_append split: sum.splits)

declare json_to_markdown.simps [simp del] key_block.simps [simp del]

lemma json_to_markdown_empty [simp]: "json_to_markdown cs (JDict []) = Inr ''''"
  by (simp add: json_to_markdown.simps)

lemma json_to_markdown_split:
  "json_to_markdown cs (JDict (pre @ kv # post))
     = (case json_to_markdown cs (JDict pre) of
          Inl e \<Rightarrow> Inl e
        | Inr a \<Rightarrow>
            (case key_block cs kv of
               Inl e \<Rightarrow> Inl e
             | Inr b \<Rightarrow>
                 (case json_to_markdown cs (JDict post) of
                    Inl e \<Rightarrow> Inl e
                  | Inr c \<Rightarrow> Inr (a @ b @ c))))"
  by (simp only: json_to_markdown_blocks blocks_split)

lemma str_nat_digit: "n < 10 \<Longrightarrow> str_nat n = [digit_char n]"
  by (subst str_nat.simps) simp

section \<open>Sections of the rendered document\<close>

text \<open>
  Claim C1. For a key other than \<open>title\<close> whose value is a sequence of mappings, the
  renderer emits \<open>## key\<close>, a blank line, and then a table: the header row holds the
  keys of the first element in that element's key order, the separator row follows, and
  each element of the sequence, in order, becomes a data row: the first element, whose
  keys give the header, and every element after it. A blank line ends the block. The
  keys before and after contribute what they render to on their own.
\<close>

theorem sequence_key_renders_table:
  assumes "key \<noteq> ''title''"
  shows "json_to_markdown cs (JDict (pre @ (key, JList (JDict first # map JDict others)) # post))
     = (case json_to_markdown cs (JDict pre) of
          Inl e \<Rightarrow> Inl e
        | Inr a \<Rightarrow>
            (case json_to_markdown cs (JDict post) of
               Inl e \<Rightarrow> Inl e
             | Inr b \<Rightarrow>
                 Inr (a @ (''## '' @ key @ ''\<newline>'') @ ''\<newline>''
                        @ (header_row first @ separator_row first
                             @ data_row cs first @ concat (map (data_row cs) others))
                        @ ''\<newline>'' @ b)))"
proof -
  have "key_block cs (key, JList (JDict first # map JDict others))
          = Inr (''## '' @ key @ ''\<newline>'' @ ''\<newline>''
                   @ (header_row first @ separator_row first
                        @ data_row cs first @ concat (map (data_row cs) others)) @ ''\<newline>'')"
    using assms by (simp add: key_block.simps json_to_markdown_table_rows)
  then show ?thesis
    by (simp add: json_to_markdown_split split: sum.splits)
qed

theorem sequence_key_renders_table_witness:
  "''usage'' \<noteq> ''title'' \<and>
   json_to_markdown sample_container_str
     (JDict [(''usage'', JList [JDict [(''cmd'', JStr ''run''), (''n'', JInt 1)],
                               JDict [(''cmd'', JStr ''stop''), (''n'', JInt 2)]])])
     = Inr (''## usage\<newline>'' @ ''\<newline>''
            @ ''| cmd | n |\<newline>'' @ ''| --- | --- |\<newline>''
            @ ''| run | 1 |\<newline>'' @ ''| stop | 2 |\<newline>'' @ ''\<newline>'')"
  using sequence_key_renders_table [of "''usage''" sample_container_str "[]"
      "[(''cmd'', JStr ''run''), (''n'', JInt 1)]"
      "[[(''cmd'', JStr ''stop''), (''n'', JInt 2)]]" "[]"]
  by (simp add: header_row_def separator_row_def data_row_def str_int_def str_nat_digit
        digit_char_def)

lemma scalar_block:
  assumes "key \<noteq> ''title''" and "\<not> is_dict_or_list v"
  shows "key_block cs (key, v)
           = Inr ((''## '' @ key @ ''\<newline>'') @ ''\<newline>'' @ ('' '' @ py_str cs v @ ''\<newline>'') @ ''\<newline>'')"
  using assms by (cases v) (simp_all add: key_block.simps)

lemma lines_of_nonempty: "lines_of s \<noteq> []"
  by (induction s) (auto split: list.splits)

lemma lines_of_line:
  "CHR ''\<newline>'' \<notin> set l \<Longrightarrow> lines_of (l @ ''\<newline>'' @ s) = l # lines_of s"
  by (induction l) auto

lemma lines_of_scalar_block:
  assumes "CHR ''\<newline>'' \<notin> set key" and "CHR ''\<newline>'' \<notin> set text"
  shows "lines_of ((''## '' @ key @ ''\<newline>'') @ ''\<newline>'' @ ('' '' @ text @ ''\<newline>'') @ ''\<newline>'' @ s)
           = [''## '' @ key, '''', '' '' @ text, ''''] @ lines_of s"
proof -
  from assms have k: "CHR ''\<newline>'' \<notin> set (''## '' @ key)" and t: "CHR ''\<newline>'' \<notin> set ('' '' @ text)"
    by simp_all
  have e: "CHR ''\<newline>'' \<notin> set ''''" by simp
  have "lines_of ((''## '' @ key) @ ''\<newline>'' @ ('''' @ ''\<newline>'' @ (('' '' @ text) @ ''\<newline>'' @ ('''' @ ''\<newline>'' @ s))))
          = (''## '' @ key) # '''' # ('' '' @ text) # '''' # lines_of s"
    by (simp only: lines_of_line [OF k] lines_of_line [OF e] lines_of_line [OF t])
  then show ?thesis by simp
qed

text \<open>
  Claim C2, as stated, fails in two ways. The line after a heading is always empty: the
  line with the value is the second line after it. And a scalar whose string form has a
  line break gives no line equal to a space and that string form, and may give further
  lines that read as headings: the document \<open>{"a": "\n## a"}\<close> has one key and two
  lines \<open>## a\<close>.
\<close>

theorem scalar_sections_counterexample:
  "json_to_markdown sample_container_str (JDict [(''a'', JStr ''\<newline>## a'')])
     = Inr (''## a\<newline>'' @ ''\<newline>'' @ '' \<newline>## a\<newline>'' @ ''\<newline>'')
   \<and> lines_of (''## a\<newline>'' @ ''\<newline>'' @ '' \<newline>## a\<newline>'' @ ''\<newline>'')
     = [''## a'', '''', '' '', ''## a'', '''', '''']
   \<and> count_list [''## a'', '''', '' '', ''## a'', '''', ''''] ''## a'' = 2
   \<and> json_to_markdown sample_container_str (JDict [(''k'', JInt 1)])
     = Inr (''## k\<newline>'' @ ''\<newline>'' @ '' 1\<newline>'' @ ''\<newline>'')
   \<and> lines_of (''## k\<newline>'' @ ''\<newline>'' @ '' 1\<newline>'' @ ''\<newline>'') = [''## k'', '''', '' 1'', '''', '''']"
  by (simp add: json_to_markdown.simps str_int_def str_nat_digit digit_char_def)

text \<open>
  Claim C2, amended. For a document whose values are all scalars, that has no \<open>title\<close>
  key, and in which no key and no string form of a value contains a line break, the
  lines of the output are, key after key in insertion order: \<open>## key\<close>, an empty line,
  the line made of one space and the scalar's string form, and an empty line. So the
  lines that start with \<open>## \<close> are exactly one heading per key, in insertion order, and
  each is followed, after one empty line, by its value line.
\<close>

theorem scalar_document_sections:
  assumes "\<forall>(key, v) \<in> set items.
             key \<noteq> ''title'' \<and> \<not> is_dict_or_list v
             \<and> CHR ''\<newline>'' \<notin> set key \<and> CHR ''\<newline>'' \<notin> set (py_str cs v)"
  shows "\<exists>out. json_to_markdown cs (JDict items) = Inr out
     \<and> out = concat (map (\<lambda>(key, v).
                (''## '' @ key @ ''\<newline>'') @ ''\<newline>'' @ ('' '' @ py_str cs v @ ''\<newline>'') @ ''\<newline>'')
              items)
     \<and> lines_of out
         = concat (map (\<lambda>(key, v). [''## '' @ key, '''', '' '' @ py_str cs v, '''']) items) @ ['''']
     \<and> filter (\<lambda>l. take 3 l = ''## '') (lines_of out) = map (\<lambda>(key, v). ''## '' @ key) items"
  using assms
proof (induction items)
  case Nil
  show ?case by simp
next
  case (Cons kv rest)
  obtain key v where kv: "kv = (key, v)" by (cases kv)
  from Cons.prems kv have k: "key \<noteq> ''title''" and v: "\<not> is_dict_or_list v"
    and nk: "CHR ''\<newline>'' \<notin> set key" and nv: "CHR ''\<newline>'' \<notin> set (py_str cs v)" by auto
  from Cons.prems have "\<forall>(key, v) \<in> set rest.
             key \<noteq> ''title'' \<and> \<not> is_dict_or_list v
             \<and> CHR ''\<newline>'' \<notin> set key \<and> CHR ''\<newline>'' \<notin> set (py_str cs v)" by simp
  from Cons.IH [OF this] obtain out where
    r: "blocks cs rest = Inr out"
    and o: "out = concat (map (\<lambda>(key, v).
                (''## '' @ key @ ''\<newline>'') @ ''\<newline>'' @ ('' '' @ py_str cs v @ ''\<newline>'') @ ''\<newline>'')
              rest)"
    and l: "lines_of out
         = concat (map (\<lambda>(key, v). [''## '' @ key, '''', '' '' @ py_str cs v, '''']) rest) @ ['''']"
    and f: "filter (\<lambda>l. take 3 l = ''## '') (lines_of out) = map (\<lambda>(key, v). ''## '' @ key) rest"
    by (auto simp only: json_to_markdown_blocks)
  let ?b = "(''## '' @ key @ ''\<newline>'') @ ''\<newline>'' @ ('' '' @ py_str cs v @ ''\<newline>'') @ ''\<newline>''"
  have 1: "json_to_markdown cs (JDict (kv # rest)) = Inr (?b @ out)"
    unfolding kv json_to_markdown_blocks by (simp add: scalar_block [OF k v] r)
  have 2: "lines_of (?b @ out) = [''## '' @ key, '''', '' '' @ py_str cs v, ''''] @ lines_of out"
    using lines_of_scalar_block [OF nk nv, of out] by simp
  have 3: "filter (\<lambda>l. take 3 l = ''## '') [''## '' @ key, '''', '' '' @ py_str cs v, ''''] = [''## '' @ key]"
    by simp
  show ?case
  proof (intro exI [of _ "?b @ out"] conjI)
    show "json_to_markdown cs (JDict (kv # rest)) = Inr (?b @ out)" by (rule 1)
    show "?b @ out = concat (map (\<lambda>(key, v).
                (''## '' @ key @ ''\<newline>'') @ ''\<newline>'' @ ('' '' @ py_str cs v @ ''\<newline>'') @ ''\<newline>'')
              (kv # rest))"
      unfolding kv o by simp
    show "lines_of (?b @ out)
         = concat (map (\<lambda>(key, v). [''## '' @ key, '''', '' '' @ py_str cs v, '''']) (kv # rest)) @ ['''']"
      unfolding 2 l kv by simp
    show "filter (\<lambda>l. take 3 l = ''## '') (lines_of (?b @ out)) = map (\<lambda>(key, v). ''## '' @ key) (kv # rest)"
      unfolding 2 kv filter_append 3 f by simp
  qed
qed

theorem scalar_document_sections_witness:
  "json_to_markdown sample_container_str
     (JDict [(''name'', JStr ''demo''), (''stars'', JInt 42), (''archived'', JBool False),
             (''license'', JNull)])
     = Inr (''## name\<newline>'' @ ''\<newline>'' @ '' demo\<newline>'' @ ''\<newline>''
            @ ''## stars\<newline>'' @ ''\<newline>'' @ '' 42\<newline>'' @ ''\<newline>''
            @ ''## archived\<newline>'' @ ''\<newline>'' @ '' False\<newline>'' @ ''\<newline>''
            @ ''## license\<newline>'' @ ''\<newline>'' @ '' None\<newline>'' @ ''\<newline>'')
   \<and> lines_of (''## name\<newline>'' @ ''\<newline>'' @ '' demo\<newline>'' @ ''\<newline>''
            @ ''## stars\<newline>'' @ ''\<newline>'' @ '' 42\<newline>'' @ ''\<newline>''
            @ ''## archived\<newline>'' @ ''\<newline>'' @ '' False\<newline>'' @ ''\<newline>''
            @ ''## license\<newline>'' @ ''\<newline>'' @ '' None\<newline>'' @ ''\<newline>'')
     = [''## name'', '''', '' demo'', '''', ''## stars'', '''', '' 42'', '''',
        ''## archived'', '''', '' False'', '''', ''## license'', '''', '' None'', '''', '''']"
  using scalar_document_sections [of "[(''name'', JStr ''demo''), (''stars'', JInt 42),
      (''archived'', JBool False), (''license'', JNull)]" sample_container_str]
  by (simp add: str_int_def str_nat.simps [of 42] str_nat_digit digit_char_def)

text \<open>
  Claim C10. The table of an empty sequence is the empty string, so a key other than
  \<open>title\<close> whose value is an empty sequence contributes its heading \<open>## key\<close> and two
  blank lines: no header row, no separator row and no data row.
\<close>

theorem empty_sequence_heading_only:
  assumes "key \<noteq> ''title''"
  shows "json_to_markdown_table cs [] = Inr '''' \<and>
    json_to_markdown cs (JDict (pre @ (key, JList []) # post))
     = (case json_to_markdown cs (JDict pre) of
          Inl e \<Rightarrow> Inl e
        | Inr a \<Rightarrow>
            (case json_to_markdown cs (JDict post) of
               Inl e \<Rightarrow> Inl e
             | Inr b \<Rightarrow> Inr (a @ (''## '' @ key @ ''\<newline>'') @ ''\<newline>'' @ ''\<newline>'' @ b)))"
proof -
  have "key_block cs (key, JList []) = Inr (''## '' @ key @ ''\<newline>'' @ ''\<newline>'' @ ''\<newline>'')"
    using assms by (simp add: key_block.simps json_to_markdown_table_empty)
  then show ?thesis
    by (simp add: json_to_markdown_split json_to_markdown_table_empty split: sum.splits)
qed

theorem empty_sequence_heading_only_witness:
  "''changes'' \<noteq> ''title'' \<and>
   json_to_markdown_table sample_container_str [] = Inr '''' \<and>
   json_to_markdown sample_container_str (JDict [(''changes'', JList [])])
     = Inr (''## changes\<newline>'' @ ''\<newline>'' @ ''\<newline>'')"
  using empty_sequence_heading_only [of "''changes''" sample_container_str "[]" "[]"]
  by simp

text \<open>
  Claim C5. The sequence \<open>[{"a":1,"b":2},{"a":3,"b":4}]\<close> renders to the header
  \<open>| a | b |\<close>, the separator \<open>| --- | --- |\<close> and the rows \<open>| 1 | 2 |\<close> and
  \<open>| 3 | 4 |\<close>, in that order. In every table, a cell whose value is a mapping or a
  sequence is the text \<open>...\<close>, and every other cell is the string form of its value;
  the nested content is never rendered.
\<close>

theorem table_rows_and_placeholder_cells:
  "json_to_markdown_table cs
     [JDict [(''a'', JInt 1), (''b'', JInt 2)], JDict [(''a'', JInt 3), (''b'', JInt 4)]]
     = Inr (''| a | b |\<newline>'' @ ''| --- | --- |\<newline>'' @ ''| 1 | 2 |\<newline>'' @ ''| 3 | 4 |\<newline>'')
   \<and> json_to_markdown_table cs (JDict first # map JDict others)
     = Inr (header_row first @ separator_row first
            @ concat (map (\<lambda>item.
                ''| '' @ str_join '' | ''
                         (map (\<lambda>(key, v). if is_dict_or_list v then ''...'' else py_str cs v) item)
                     @ '' |\<newline>'')
                (first # others)))
   \<and> json_to_markdown_table cs
     [JDict [(''name'', JStr ''x''), (''opts'', JDict [(''k'', JInt 1)]), (''tags'', JList [JStr ''t''])]]
     = Inr (''| name | opts | tags |\<newline>'' @ ''| --- | --- | --- |\<newline>''
            @ ''| x | ... | ... |\<newline>'')"
proof (intro conjI)
  show "json_to_markdown_table cs
     [JDict [(''a'', JInt 1), (''b'', JInt 2)], JDict [(''a'', JInt 3), (''b'', JInt 4)]]
     = Inr (''| a | b |\<newline>'' @ ''| --- | --- |\<newline>'' @ ''| 1 | 2 |\<newline>'' @ ''| 3 | 4 |\<newline>'')"
    by (simp add: json_to_markdown_table_def table_cell_def str_int_def str_nat_digit digit_char_def)
  show "json_to_markdown_table cs (JDict first # map JDict others)
     = Inr (header_row first @ separator_row first
            @ concat (map (\<lambda>item.
                ''| '' @ str_join '' | ''
                         (map (\<lambda>(key, v). if is_dict_or_list v then ''...'' else py_str cs v) item)
                     @ '' |\<newline>'')
                (first # others)))"
    using json_to_markdown_table_rows [of cs first others]
    by (simp add: data_row_def [abs_def])
  show "json_to_markdown_table cs
     [JDict [(''name'', JStr ''x''), (''opts'', JDict [(''k'', JInt 1)]), (''tags'', JList [JStr ''t''])]]
     = Inr (''| name | opts | tags |\<newline>'' @ ''| --- | --- | --- |\<newline>''
            @ ''| x | ... | ... |\<newline>'')"
    by (simp add: json_to_markdown_table_def table_cell_def)
qed

lemma all_dicts_map: "\<forall>item \<in> set l. is_dict item \<Longrightarrow> \<exists>rows. l = map JDict rows"
proof (induction l)
  case Nil
  show ?case by simp
next
  case (Cons a l)
  then obtain rows where "l = map JDict rows" by auto
  moreover from Cons.prems obtain r where "a = JDict r" by (cases a) auto
  ultimately have "a # l = map JDict (r # rows)" by simp
  then show ?case by (rule exI)
qed

lemma structured_document_renders:
  "structured_document d \<Longrightarrow> \<exists>text. blocks cs d = Inr text"
proof (induction d rule: structured_document.induct)
  case 1
  show ?case by simp
next
  case (2 key v rest)
  from "2.prems" have rest: "structured_document rest" by simp
  from "2.IH"(2) [OF rest] obtain r where r: "blocks cs rest = Inr r" by blast
  have "\<exists>b. key_block cs (key, v) = Inr b"
  proof (cases v)
    case (JDict d)
    with "2.prems" have "structured_document d" by simp
    from "2.IH"(1) [OF JDict this] obtain t where "blocks cs d = Inr t" by blast
    with JDict show ?thesis by (simp add: key_block.simps json_to_markdown_blocks)
  next
    case (JList l)
    with "2.prems" have u: "uniform_mappings l" by simp
    have "\<exists>t. json_to_markdown_table cs l = Inr t"
    proof (cases l)
      case Nil
      then show ?thesis by (simp add: json_to_markdown_table_empty)
    next
      case (Cons x xs)
      from u have "\<forall>item \<in> set l. is_dict item"
        by (simp add: uniform_mappings_def list_all_iff)
      then have "\<exists>rows. l = map JDict rows" by (rule all_dicts_map)
      then obtain rows where rows: "l = map JDict rows" by blast
      with Cons obtain r rs where "l = JDict r # map JDict rs" by (cases rows) auto
      then show ?thesis by (simp add: json_to_markdown_table_rows)
    qed
    with JList show ?thesis by (auto simp: key_block.simps)
  qed (simp_all add: key_block.simps)
  with r show ?case by auto
qed

text \<open>
  Claim C4. For a key other than \<open>title\<close> whose value is a nested mapping of the data
  model, the renderer traverses the nested mapping and appends none of its text: the key
  contributes exactly one blank line between the text of the keys before it and the text
  of the keys after it.
\<close>

theorem nested_mapping_discarded:
  assumes "key \<noteq> ''title''" and "structured_document d"
  shows "json_to_markdown cs (JDict (pre @ (key, JDict d) # post))
     = (case json_to_markdown cs (JDict pre) of
          Inl e \<Rightarrow> Inl e
        | Inr a \<Rightarrow>
            (case json_to_markdown cs (JDict post) of
               Inl e \<Rightarrow> Inl e
             | Inr b \<Rightarrow> Inr (a @ ''\<newline>'' @ b)))"
proof -
  from structured_document_renders [OF assms(2)] obtain t where "json_to_markdown cs (JDict d) = Inr t"
    by (auto simp: json_to_markdown_blocks)
  with assms(1) have "key_block cs (key, JDict d) = Inr ''\<newline>''"
    by (simp add: key_block.simps)
  then show ?thesis
    by (simp add: json_to_markdown_split split: sum.splits)
qed

theorem nested_mapping_discarded_witness:
  "json_to_markdown sample_container_str
     (JDict [(''name'', JStr ''demo''),
             (''meta'', JDict [(''owner'', JStr ''me''),
                               (''links'', JList [JDict [(''url'', JStr ''u'')], JDict [(''url'', JStr ''w'')]])]),
             (''stars'', JInt 7)])
     = Inr (''## name\<newline>'' @ ''\<newline>'' @ '' demo\<newline>'' @ ''\<newline>''
            @ ''\<newline>''
            @ ''## stars\<newline>'' @ ''\<newline>'' @ '' 7\<newline>'' @ ''\<newline>'')"
  using nested_mapping_discarded [of "''meta''"
      "[(''owner'', JStr ''me''),
        (''links'', JList [JDict [(''url'', JStr ''u'')], JDict [(''url'', JStr ''w'')]])]"
      sample_container_str "[(''name'', JStr ''demo'')]" "[(''stars'', JInt 7)]"]
  by (simp add: json_to_markdown.simps uniform_mappings_def str_int_def str_nat_digit digit_char_def)

text \<open>
  The hypothesis on the nested mapping cannot be dropped: the traversal is a full
  rendering, and on a nested mapping outside the data model (a sequence with an element
  that is not a mapping, under a key other than \<open>title\<close>) it raises.
\<close>

lemma nested_traversal_outside_data_model:
  "\<not> structured_document [(''tags'', JList [JStr ''cli''])]
   \<and> json_to_markdown sample_container_str (JDict [(''meta'', JDict [(''tags'', JList [JStr ''cli''])])])
       = Inl (no_attribute (JStr ''cli'') ''keys'')"
  by (simp add: json_to_markdown.simps json_to_markdown_table_def uniform_mappings_def)

text \<open>
  Claim C6, as stated, fails for a document in which \<open>title\<close> is not the first key:
  the keys are rendered in insertion order, so the first line belongs to the first key.
\<close>

theorem title_first_line_counterexample:
  "json_to_markdown sample_container_str (JDict [(''summary'', JStr ''x''), (''title'', JStr ''Foo'')])
     = Inr (''## summary\<newline>'' @ ''\<newline>'' @ '' x\<newline>'' @ ''\<newline>'' @ ''# Foo\<newline>'' @ ''\<newline>'')
   \<and> first_line (''## summary\<newline>'' @ ''\<newline>'' @ '' x\<newline>'' @ ''\<newline>'' @ ''# Foo\<newline>'' @ ''\<newline>'')
     = ''## summary''
   \<and> ''## summary'' \<noteq> ''# Foo''"
  by (simp add: json_to_markdown.simps first_line_def)

lemma first_line_append:
  "CHR ''\<newline>'' \<notin> set s \<Longrightarrow> first_line (s @ ''\<newline>'' @ t) = s"
  by (induction s) (auto simp: first_line_def)

text \<open>
  Claim C6, amended. For a document with the key \<open>title\<close>, the renderer emits
  \<open># value\<close> and a blank line at the place the key has in the insertion order, between
  the text of the keys before it and the text of the keys after it, and no
  \<open>## title\<close> heading. When \<open>title\<close> is the first key, the rendering succeeds and the
  value's text has no line break, the first line of the output is exactly \<open># value\<close>.
  Every other key contributes a blank line or a section that starts with its own
  \<open>## key\<close> heading, so the renderer writes no other H1 heading of its own.
\<close>

theorem title_renders_h1:
  "json_to_markdown cs (JDict (pre @ (''title'', v) # post))
     = (case json_to_markdown cs (JDict pre) of
          Inl e \<Rightarrow> Inl e
        | Inr a \<Rightarrow>
            (case json_to_markdown cs (JDict post) of
               Inl e \<Rightarrow> Inl e
             | Inr b \<Rightarrow> Inr (a @ (''# '' @ py_str cs v @ ''\<newline>'') @ ''\<newline>'' @ b)))
   \<and> (json_to_markdown cs (JDict ((''title'', v) # post)) = Inr out
        \<and> CHR ''\<newline>'' \<notin> set (py_str cs v)
      \<longrightarrow> first_line out = ''# '' @ py_str cs v)
   \<and> (key \<noteq> ''title'' \<and> json_to_markdown cs (JDict [(key, u)]) = Inr block
      \<longrightarrow> block = ''\<newline>'' \<or> (\<exists>t. block = (''## '' @ key @ ''\<newline>'') @ t))"
proof (intro conjI impI)
  have kb: "key_block cs (''title'', v) = Inr (''# '' @ py_str cs v @ ''\<newline>'' @ ''\<newline>'')"
    by (simp add: key_block.simps)
  show "json_to_markdown cs (JDict (pre @ (''title'', v) # post))
     = (case json_to_markdown cs (JDict pre) of
          Inl e \<Rightarrow> Inl e
        | Inr a \<Rightarrow>
            (case json_to_markdown cs (JDict post) of
               Inl e \<Rightarrow> Inl e
             | Inr b \<Rightarrow> Inr (a @ (''# '' @ py_str cs v @ ''\<newline>'') @ ''\<newline>'' @ b)))"
    by (simp add: json_to_markdown_split kb split: sum.splits)
next
  assume a: "json_to_markdown cs (JDict ((''title'', v) # post)) = Inr out
        \<and> CHR ''\<newline>'' \<notin> set (py_str cs v)"
  have kb: "key_block cs (''title'', v) = Inr (''# '' @ py_str cs v @ ''\<newline>'' @ ''\<newline>'')"
    by (simp add: key_block.simps)
  from a obtain b where out: "out = (''# '' @ py_str cs v) @ ''\<newline>'' @ (''\<newline>'' @ b)"
    by (auto simp: json_to_markdown_blocks kb split: sum.splits)
  from a have "CHR ''\<newline>'' \<notin> set (''# '' @ py_str cs v)" by simp
  then have "first_line ((''# '' @ py_str cs v) @ ''\<newline>'' @ (''\<newline>'' @ b)) = ''# '' @ py_str cs v"
    by (rule first_line_append)
  with out show "first_line out = ''# '' @ py_str cs v" by simp
next
  assume a: "key \<noteq> ''title'' \<and> json_to_markdown cs (JDict [(key, u)]) = Inr block"
  then have "key_block cs (key, u) = Inr block"
    by (simp add: json_to_markdown_blocks split: sum.splits)
  with a show "block = ''\<newline>'' \<or> (\<exists>t. block = (''## '' @ key @ ''\<newline>'') @ t)"
    by (cases u) (auto simp: key_block.simps split: sum.splits)
qed

theorem title_renders_h1_witness:
  "json_to_markdown sample_container_str (JDict [(''title'', JStr ''Foo''), (''stars'', JInt 7)])
     = Inr (''# Foo\<newline>'' @ ''\<newline>'' @ ''## stars\<newline>'' @ ''\<newline>'' @ '' 7\<newline>'' @ ''\<newline>'')
   \<and> first_line (''# Foo\<newline>'' @ ''\<newline>'' @ ''## stars\<newline>'' @ ''\<newline>'' @ '' 7\<newline>'' @ ''\<newline>'')
     = ''# Foo''"
  using title_renders_h1 [of sample_container_str "[]" "JStr ''Foo''" "[(''stars'', JInt 7)]"
      "''# Foo\<newline>'' @ ''\<newline>'' @ ''## stars\<newline>'' @ ''\<newline>'' @ '' 7\<newline>'' @ ''\<newline>''" "''stars''" "JInt 7"
      "''## stars\<newline>'' @ ''\<newline>'' @ '' 7\<newline>'' @ ''\<newline>''"]
  by (simp add: json_to_markdown.simps str_int_def str_nat_digit digit_char_def)

section \<open>Choosing the branch name\<close>





lemma dropWhile_space_Nil: "dropWhile is_space s = [] \<longleftrightarrow> (\<forall>c \<in> set s. is_space c)"
  by (induction s) auto

lemma py_strip_Nil: "py_strip s = [] \<longleftrightarrow> (\<forall>c \<in> set s. is_space c)"
proof -
  have "py_strip s = [] \<longleftrightarrow> (\<forall>c \<in> set (dropWhile is_space s). is_space c)"
    by (simp add: py_strip_def dropWhile_space_Nil)
  also have "\<dots> \<longleftrightarrow> (\<forall>c \<in> set s. is_space c)"
  proof
    assume a: "\<forall>c \<in> set (dropWhile is_space s). is_space c"
    have "set s = set (takeWhile is_space s) \<union> set (dropWhile is_space s)"
      by (metis set_append takeWhile_dropWhile_id)
    with a show "\<forall>c \<in> set s. is_space c" by (auto dest: set_takeWhileD)
  next
    assume "\<forall>c \<in> set s. is_space c"
    then show "\<forall>c \<in> set (dropWhile is_space s). is_space c" by (auto dest: set_dropWhileD)
  qed
  finally show ?thesis .
qed

lemma replace_crlf_spaces:
  "(\<forall>c \<in> set (replace_crlf s). is_space c) \<longleftrightarrow> (\<forall>c \<in> set s. is_space c)"
  by (induction s rule: replace_crlf.induct) (auto simp: is_space_def)

lemma replace_cr_spaces:
  "(\<forall>c \<in> set (replace_cr s). is_space c) \<longleftrightarrow> (\<forall>c \<in> set s. is_space c)"
  by (induction s) (auto simp: replace_cr_def is_space_def)

lemma check_plain_branch_list:
  assumes "decode_output env = Inr" and "run_git_branch_list env = plain_branch_list bs"
    and "\<exists>c \<in> set name. \<not> is_space c"
  shows "check_branch_exists env name = Inr (name \<in> set bs)"
proof (cases "name \<in> set bs")
  case True
  from assms(3) have "\<not> (\<forall>c \<in> set (''  '' @ name @ ''\<newline>''). is_space c)" by auto
  then have "py_strip (replace_cr (replace_crlf (''  '' @ name @ ''\<newline>''))) \<noteq> []"
    by (simp only: py_strip_Nil replace_cr_spaces replace_crlf_spaces not_False_eq_True)
  with True assms(1,2) show ?thesis
    by (simp add: check_branch_exists_def subprocess_run_text_def translate_newlines_def
          plain_branch_list_def)
next
  case False
  with assms(1,2) show ?thesis
    by (simp add: check_branch_exists_def subprocess_run_text_def translate_newlines_def
          plain_branch_list_def py_strip_def replace_cr_def)
qed

lemma sample_env_fields:
  "OUTPUT_PATH (sample_env x code) = ''README.md''"
  "TEMPLATE_PATH (sample_env x code) = ''template.json''"
  "BRANCH_NAME (sample_env x code) = ''doc-update''"
  "GITHUB_TOKEN (sample_env x code) = ''t''"
  "GITHUB_REPOSITORY (sample_env x code) = ''o/r''"
  "path_exists (sample_env x code) p = x"
  "load_template (sample_env x code) = Inr (JDict [])"
  "decode_output (sample_env x code) = Inr"
  "run_git_diff (sample_env x code)
     = Inr \<lparr> raw_returncode = code, raw_stdout = ''diff'', raw_stderr = '''' \<rparr>"
  "run_git_branch_list (sample_env x code) = plain_branch_list [''doc-update'', ''doc-update-1'']"
  "create_completion (sample_env x code) template commit_diff = Inr (JDict [(''title'', JStr ''Foo'')])"
  "write_file (sample_env x code) p content = Inr ()"
  "run_checked (sample_env x code) cmd = Inr ()"
  "container_str (sample_env x code) = sample_container_str"
  by (simp_all add: sample_env_def)

lemma sample_probe:
  assumes d: "decode_output env = Inr"
    and g: "run_git_branch_list env = plain_branch_list [''doc-update'', ''doc-update-1'']"
  shows "get_unique_branch_name env ''doc-update'' tr
       = Some (Inr ''doc-update-2'',
               tr @ [branch_probe ''doc-update'', branch_probe ''doc-update-1'',
                     branch_probe ''doc-update-2''])"
proof -
  have n: "\<exists>c \<in> set (''doc-update'' @ s). \<not> is_space c" for s
    by (rule bexI [of _ "CHR ''d''"]) (simp_all add: is_space_def)
  have 0: "check_branch_exists env ''doc-update'' = Inr True"
    using check_plain_branch_list [OF d g n [of "''''"]] by simp
  have 1: "check_branch_exists env ''doc-update-1'' = Inr True"
    using check_plain_branch_list [OF d g n [of "''-1''"]] by simp
  have 2: "check_branch_exists env ''doc-update-2'' = Inr False"
    using check_plain_branch_list [OF d g n [of "''-2''"]] by simp
  show ?thesis
    unfolding get_unique_branch_name_def
    apply (subst get_unique_branch_loop.simps, simp add: 0 str_nat_digit digit_char_def)
    apply (subst get_unique_branch_loop.simps, simp add: 1 str_nat_digit digit_char_def)
    apply (subst get_unique_branch_loop.simps, simp add: 2)
    done
qed



section \<open>Retrieving the diff\<close>

lemma replace_crlf_id: "CHR 0x0D \<notin> set s \<Longrightarrow> replace_crlf s = s"
  by (induction s rule: replace_crlf.induct) auto

lemma replace_cr_id: "CHR 0x0D \<notin> set s \<Longrightarrow> replace_cr s = s"
  by (induction s) (auto simp: replace_cr_def)

lemma sample_get_commit_diff:
  assumes "decode_output env = Inr"
    and "run_git_diff env = Inr \<lparr> raw_returncode = 0, raw_stdout = ''diff'', raw_stderr = '''' \<rparr>"
  shows "get_commit_diff env = Inr ''diff''"
  using assms
  by (simp add: get_commit_diff_def subprocess_run_text_def translate_newlines_def replace_cr_def)

text \<open>
  Claim C8, as stated, fails: the call of \<^verbatim>\<open>subprocess.run\<close> in text mode raises on
  output that cannot be decoded although git has ended with status 0, and it rewrites
  \<open>CR LF\<close> to \<open>LF\<close> in the text it returns.
\<close>

theorem diff_retrieval_counterexample:
  "get_commit_diff ((sample_env False 0)
       \<lparr> decode_output := ascii_decode,
         run_git_diff := Inr \<lparr> raw_returncode = 0, raw_stdout = [CHR 0xFF], raw_stderr = '''' \<rparr> \<rparr>)
     = Inl (UnicodeDecodeError ''ordinal not in range(128)'')
   \<and> get_commit_diff ((sample_env False 0)
       \<lparr> run_git_diff := Inr \<lparr> raw_returncode = 0, raw_stdout = [CHR ''a'', CHR 0x0D, CHR ''\<newline>'', CHR ''b''],
                               raw_stderr = '''' \<rparr> \<rparr>)
     = Inr [CHR ''a'', CHR ''\<newline>'', CHR ''b'']
   \<and> [CHR ''a'', CHR ''\<newline>'', CHR ''b''] \<noteq> [CHR ''a'', CHR 0x0D, CHR ''\<newline>'', CHR ''b'']"
  by (simp add: get_commit_diff_def subprocess_run_text_def translate_newlines_def sample_env_def
        ascii_decode_def replace_cr_def)

text \<open>
  Claim C8, amended. The diff retrieval raises whenever the invocation ends with a
  non-zero status (with the fixed message when the output can be decoded). It also
  raises, whatever the status, when the command cannot be started or when its captured
  output, on either stream, cannot be decoded. When the status is zero and the output
  can be decoded, the decoded text is returned after the newline translation of text
  mode only (\<open>CR LF\<close> and \<open>CR\<close> become \<open>LF\<close>): nothing is filtered or cut, and a diff
  without a carriage return is returned unchanged.
\<close>

theorem get_commit_diff_outcomes:
  "(run_git_diff env = Inl e \<longrightarrow> get_commit_diff env = Inl e)
   \<and> (run_git_diff env = Inr p \<and> decode_output env (raw_stdout p) = Inl e
        \<longrightarrow> get_commit_diff env = Inl e)
   \<and> (run_git_diff env = Inr p \<and> decode_output env (raw_stdout p) = Inr out
        \<and> decode_output env (raw_stderr p) = Inl e
        \<longrightarrow> get_commit_diff env = Inl e)
   \<and> (run_git_diff env = Inr p \<and> raw_returncode p \<noteq> 0
        \<longrightarrow> (\<exists>e'. get_commit_diff env = Inl e'))
   \<and> (run_git_diff env = Inr p \<and> decode_output env (raw_stdout p) = Inr out
        \<and> decode_output env (raw_stderr p) = Inr err \<and> raw_returncode p \<noteq> 0
        \<longrightarrow> get_commit_diff env = Inl (Exception ''Failed to get git diff.''))
   \<and> (run_git_diff env = Inr p \<and> decode_output env (raw_stdout p) = Inr out
        \<and> decode_output env (raw_stderr p) = Inr err \<and> raw_returncode p = 0
        \<longrightarrow> get_commit_diff env = Inr (replace_cr (replace_crlf out))
            \<and> (CHR 0x0D \<notin> set out \<longrightarrow> get_commit_diff env = Inr out))"
  by (auto simp: get_commit_diff_def subprocess_run_text_def translate_newlines_def
        replace_crlf_id replace_cr_id split: sum.splits)

theorem get_commit_diff_outcomes_witness:
  "get_commit_diff (sample_env False 128) = Inl (Exception ''Failed to get git diff.'')
   \<and> get_commit_diff (sample_env False 0) = Inr ''diff''
   \<and> get_commit_diff ((sample_env False 0) \<lparr> run_git_diff := Inl (EnvironmentError ''git'') \<rparr>)
       = Inl (EnvironmentError ''git'')"
  using get_commit_diff_outcomes [of "sample_env False 128" "Exception ''x''"
      "\<lparr> raw_returncode = 128, raw_stdout = ''diff'', raw_stderr = '''' \<rparr>" "''diff''" "''''"]
    get_commit_diff_outcomes [of "sample_env False 0" "Exception ''x''"
      "\<lparr> raw_returncode = 0, raw_stdout = ''diff'', raw_stderr = '''' \<rparr>" "''diff''" "''''"]
    get_commit_diff_outcomes [of "(sample_env False 0) \<lparr> run_git_diff := Inl (EnvironmentError ''git'') \<rparr>"
      "EnvironmentError ''git''"]
  by (simp add: sample_env_fields replace_cr_def)

section \<open>The script\<close>

text \<open>
  Only the script itself calls \<^verbatim>\<open>print\<close>: the steps of the pipeline add calls to the
  trace, never a \<open>Print\<close>.
\<close>

lemma print_calls_append: "print_calls (tr @ tr') = print_calls tr @ print_calls tr'"
  by (induction tr rule: print_calls.induct) simp_all

lemma print_calls_get_unique_branch_loop:
  assumes "get_unique_branch_loop env base name c tr = Some y"
  shows "print_calls (snd y) = print_calls tr"
proof (rule get_unique_branch_loop.raw_induct
    [where P = "\<lambda>env base name c tr y. print_calls (snd y) = print_calls tr", OF _ assms])
  fix loop :: "env \<Rightarrow> string \<Rightarrow> string \<Rightarrow> nat \<Rightarrow> event list \<Rightarrow> ((error + string) \<times> event list) option"
  fix env base name c tr y
  assume ih: "\<And>env base name c tr y. loop env base name c tr = Some y
                \<Longrightarrow> print_calls (snd y) = print_calls tr"
  assume body: "(case check_branch_exists env name of
        Inl e \<Rightarrow> Some (Inl e, tr @ [branch_probe name])
      | Inr found \<Rightarrow>
          (if found
           then loop env base (base @ ''-'' @ str_nat c) (c + 1) (tr @ [branch_probe name])
           else Some (Inr name, tr @ [branch_probe name]))) = Some y"
  show "print_calls (snd y) = print_calls tr"
  proof (cases "check_branch_exists env name")
    case (Inl e)
    with body show ?thesis by (auto simp: print_calls_append branch_probe_def)
  next
    case (Inr found)
    show ?thesis
    proof (cases found)
      case True
      with Inr body have "loop env base (base @ ''-'' @ str_nat c) (c + 1) (tr @ [branch_probe name]) = Some y"
        by simp
      from ih [OF this] show ?thesis by (simp add: print_calls_append branch_probe_def)
    next
      case False
      with Inr body show ?thesis by (auto simp: print_calls_append branch_probe_def)
    qed
  qed
qed

lemma run_all_ok:
  "\<forall>cmd \<in> set cmds. run cmd = Inr () \<Longrightarrow> run_all run cmds tr = (Inr (), tr @ map Run cmds)"
  by (induction cmds arbitrary: tr) simp_all

lemma run_all_fails:
  "\<forall>cmd \<in> set done. run cmd = Inr () \<Longrightarrow> run cmd = Inl e
     \<Longrightarrow> run_all run (done @ cmd # rest) tr = (Inl e, tr @ map Run (done @ [cmd]))"
  by (induction "done" arbitrary: tr) simp_all

lemma print_calls_runs: "print_calls (map Run cmds) = []"
  by (induction cmds) simp_all

lemma print_calls_run_all: "print_calls (snd (run_all run cmds tr)) = print_calls tr"
  by (induction cmds arbitrary: tr) (simp_all add: print_calls_append split: sum.splits)

lemma print_calls_commit_and_push:
  assumes "commit_and_push env branch_name file_path tr = Some (r, tr')"
  shows "print_calls tr' = print_calls tr"
proof (cases "get_unique_branch_name env branch_name tr")
  case None
  with assms show ?thesis by (simp add: commit_and_push_def)
next
  case (Some y)
  obtain res tr1 where y: "y = (res, tr1)" by (cases y)
  from Some have p: "print_calls tr1 = print_calls tr"
    unfolding get_unique_branch_name_def y
    by (auto dest: print_calls_get_unique_branch_loop)
  show ?thesis
  proof (cases res)
    case (Inl e)
    with assms Some y p show ?thesis by (simp add: commit_and_push_def)
  next
    case (Inr unique)
    with assms Some y have "tr' = snd (run_all (run_checked env)
        (publish_commands env unique file_path) tr1)"
      by (auto simp: commit_and_push_def)
    with p show ?thesis by (simp only: print_calls_run_all)
  qed
qed

lemma print_calls_generate_readme:
  "generate_readme env template commit_diff tr = (r, tr1) \<Longrightarrow> print_calls tr1 = print_calls tr"
  by (auto simp: generate_readme_def print_calls_append split: sum.splits)

lemma print_calls_main_try:
  assumes "\<not> path_exists env (OUTPUT_PATH env)" and "main_try env = Some (res, tr')"
  shows "print_calls tr' = []"
proof (cases "load_template env")
  case (Inl e)
  with assms show ?thesis by (auto simp: main_try_def)
next
  case template: (Inr template)
  show ?thesis
  proof (cases "get_commit_diff env")
    case (Inl e)
    with assms template show ?thesis by (auto simp: main_try_def)
  next
    case diff: (Inr commit_diff)
    obtain r tr where g: "generate_readme env template commit_diff
        [PathExists (OUTPUT_PATH env), OpenRead (TEMPLATE_PATH env), Run git_diff_cmd] = (r, tr)"
      by (cases "generate_readme env template commit_diff
        [PathExists (OUTPUT_PATH env), OpenRead (TEMPLATE_PATH env), Run git_diff_cmd]")
    from print_calls_generate_readme [OF g] have tr: "print_calls tr = []" by simp
    show ?thesis
    proof (cases r)
      case (Inl e)
      with assms template diff g tr show ?thesis by (auto simp: main_try_def)
    next
      case content: (Inr readme_content)
      show ?thesis
      proof (cases "write_file env (OUTPUT_PATH env) readme_content")
        case (Inl e)
        with assms template diff g tr content show ?thesis
          by (auto simp: main_try_def print_calls_append)
      next
        case (Inr u)
        with assms template diff g content have
          "commit_and_push env (BRANCH_NAME env) (OUTPUT_PATH env)
             (tr @ [OpenWrite (OUTPUT_PATH env) readme_content]) = Some (res, tr')"
          by (simp add: main_try_def)
        from print_calls_commit_and_push [OF this] tr show ?thesis
          by (simp add: print_calls_append)
      qed
    qed
  qed
qed

text \<open>
  Claim C7. When the output file exists at the start, the script only tests the path
  and prints that the generation is skipped: the template is not read, no diff is
  retrieved, no completion is requested, no file is written and no git command is run,
  and the run ends with exit status 0.
\<close>

theorem existing_output_skips_pipeline:
  assumes "path_exists env (OUTPUT_PATH env)"
  shows "main env = Some ([PathExists (OUTPUT_PATH env),
                           Print (OUTPUT_PATH env @ '' already exists. Skipping generation.'')], 0)"
  using assms by (simp add: main_def main_try_def)

theorem existing_output_skips_pipeline_witness:
  "main (sample_env True 0)
     = Some ([PathExists ''README.md'', Print ''README.md already exists. Skipping generation.''], 0)"
  using existing_output_skips_pipeline [of "sample_env True 0"]
  by (simp add: sample_env_def)

text \<open>
  Claim C9. Every run that ends has exit status 0. An exception of any stage reaches
  the handler, which makes the one \<^verbatim>\<open>print\<close> call of the run, \<open>Error: \<close> followed by
  the message, after the calls made so far, and nothing is attempted after the failing
  call: this holds for the reading of the template, for the diff retrieval (whatever
  made it raise), for the completion call, for the converter, for the writing of the
  file, for an existence check of the publisher, and for each of its git commands. In
  particular, when \<^verbatim>\<open>git diff\<close> ends with a non-zero status, the run consists of the
  path test, the reading of the template, the \<^verbatim>\<open>git diff\<close> call and the error line:
  no completion call, no file write and no step of the publisher. A run of the pipeline
  in which no stage raises makes no \<^verbatim>\<open>print\<close> call.
\<close>

theorem errors_reported_once:
  "(main env = Some (tr, st) \<longrightarrow> st = 0)
   \<and> (main_try env = Some (Inl e, tr) \<longrightarrow>
        main env = Some (tr @ [Print (''Error: '' @ str_error e)], 0)
        \<and> print_calls (tr @ [Print (''Error: '' @ str_error e)]) = [''Error: '' @ str_error e])
   \<and> (\<not> path_exists env (OUTPUT_PATH env) \<and> main_try env = Some (Inr (), tr) \<longrightarrow>
        main env = Some (tr, 0) \<and> print_calls tr = [])
   \<and> (\<not> path_exists env (OUTPUT_PATH env) \<and> load_template env = Inl e \<longrightarrow>
        main env = Some ([PathExists (OUTPUT_PATH env), OpenRead (TEMPLATE_PATH env),
                          Print (''Error: '' @ str_error e)], 0))
   \<and> (\<not> path_exists env (OUTPUT_PATH env) \<and> load_template env = Inr template
        \<and> get_commit_diff env = Inl e \<longrightarrow>
        main env = Some ([PathExists (OUTPUT_PATH env), OpenRead (TEMPLATE_PATH env),
                          Run git_diff_cmd, Print (''Error: '' @ str_error e)], 0))
   \<and> (\<not> path_exists env (OUTPUT_PATH env) \<and> load_template env = Inr template
        \<and> subprocess_run_text (decode_output env) (run_git_diff env) = Inr result
        \<and> returncode result \<noteq> 0 \<longrightarrow>
        main env = Some ([PathExists (OUTPUT_PATH env), OpenRead (TEMPLATE_PATH env),
                          Run git_diff_cmd, Print ''Error: Failed to get git diff.''], 0))
   \<and> (\<not> path_exists env (OUTPUT_PATH env) \<and> load_template env = Inr template
        \<and> get_commit_diff env = Inr commit_diff
        \<and> create_completion env template commit_diff = Inl e \<longrightarrow>
        main env = Some ([PathExists (OUTPUT_PATH env), OpenRead (TEMPLATE_PATH env),
                          Run git_diff_cmd, CompletionCall template commit_diff,
                          Print (''Error: '' @ str_error e)], 0))
   \<and> (\<not> path_exists env (OUTPUT_PATH env) \<and> load_template env = Inr template
        \<and> get_commit_diff env = Inr commit_diff
        \<and> create_completion env template commit_diff = Inr json_data
        \<and> json_to_markdown (container_str env) json_data = Inl e \<longrightarrow>
        main env = Some ([PathExists (OUTPUT_PATH env), OpenRead (TEMPLATE_PATH env),
                          Run git_diff_cmd, CompletionCall template commit_diff,
                          Print (''Error: '' @ str_error e)], 0))
   \<and> (\<not> path_exists env (OUTPUT_PATH env) \<and> load_template env = Inr template
        \<and> get_commit_diff env = Inr commit_diff
        \<and> create_completion env template commit_diff = Inr json_data
        \<and> json_to_markdown (container_str env) json_data = Inr readme_content
        \<and> write_file env (OUTPUT_PATH env) readme_content = Inl e \<longrightarrow>
        main env = Some ([PathExists (OUTPUT_PATH env), OpenRead (TEMPLATE_PATH env),
                          Run git_diff_cmd, CompletionCall template commit_diff,
                          OpenWrite (OUTPUT_PATH env) readme_content,
                          Print (''Error: '' @ str_error e)], 0))
   \<and> (\<not> path_exists env (OUTPUT_PATH env) \<and> load_template env = Inr template
        \<and> get_commit_diff env = Inr commit_diff
        \<and> create_completion env template commit_diff = Inr json_data
        \<and> json_to_markdown (container_str env) json_data = Inr readme_content
        \<and> write_file env (OUTPUT_PATH env) readme_content = Inr ()
        \<and> get_unique_branch_name env (BRANCH_NAME env)
             [PathExists (OUTPUT_PATH env), OpenRead (TEMPLATE_PATH env), Run git_diff_cmd,
              CompletionCall template commit_diff, OpenWrite (OUTPUT_PATH env) readme_content]
            = Some (Inl e, probed) \<longrightarrow>
        main env = Some (probed @ [Print (''Error: '' @ str_error e)], 0))
   \<and> (\<not> path_exists env (OUTPUT_PATH env) \<and> load_template env = Inr template
        \<and> get_commit_diff env = Inr commit_diff
        \<and> create_completion env template commit_diff = Inr json_data
        \<and> json_to_markdown (container_str env) json_data = Inr readme_content
        \<and> write_file env (OUTPUT_PATH env) readme_content = Inr ()
        \<and> get_unique_branch_name env (BRANCH_NAME env)
             [PathExists (OUTPUT_PATH env), OpenRead (TEMPLATE_PATH env), Run git_diff_cmd,
              CompletionCall template commit_diff, OpenWrite (OUTPUT_PATH env) readme_content]
            = Some (Inr unique_branch_name, probed)
        \<and> publish_commands env unique_branch_name (OUTPUT_PATH env) = succeeded @ cmd # rest
        \<and> (\<forall>c \<in> set succeeded. run_checked env c = Inr ())
        \<and> run_checked env cmd = Inl e \<longrightarrow>
        main env = Some (probed @ map Run (succeeded @ [cmd])
                           @ [Print (''Error: '' @ str_error e)], 0))
   \<and> (\<not> path_exists env (OUTPUT_PATH env) \<and> load_template env = Inr template
        \<and> get_commit_diff env = Inr commit_diff
        \<and> create_completion env template commit_diff = Inr json_data
        \<and> json_to_markdown (container_str env) json_data = Inr readme_content
        \<and> write_file env (OUTPUT_PATH env) readme_content = Inr ()
        \<and> get_unique_branch_name env (BRANCH_NAME env)
             [PathExists (OUTPUT_PATH env), OpenRead (TEMPLATE_PATH env), Run git_diff_cmd,
              CompletionCall template commit_diff, OpenWrite (OUTPUT_PATH env) readme_content]
            = Some (Inr unique_branch_name, probed)
        \<and> (\<forall>c \<in> set (publish_commands env unique_branch_name (OUTPUT_PATH env)).
               run_checked env c = Inr ()) \<longrightarrow>
        main env = Some (probed
                           @ map Run (publish_commands env unique_branch_name (OUTPUT_PATH env)), 0))"
proof (intro conjI impI)
  assume "main env = Some (tr, st)"
  then show "st = 0"
    by (auto simp: main_def split: option.splits prod.splits sum.splits)
next
  assume a: "main_try env = Some (Inl e, tr)"
  then show "main env = Some (tr @ [Print (''Error: '' @ str_error e)], 0)"
    by (simp add: main_def)
  from a have "\<not> path_exists env (OUTPUT_PATH env)"
    by (auto simp: main_try_def)
  from print_calls_main_try [OF this a]
  show "print_calls (tr @ [Print (''Error: '' @ str_error e)]) = [''Error: '' @ str_error e]"
    by (simp add: print_calls_append)
next
  assume a: "\<not> path_exists env (OUTPUT_PATH env) \<and> main_try env = Some (Inr (), tr)"
  then show "main env = Some (tr, 0)" by (simp add: main_def)
  from a print_calls_main_try [of env "Inr ()" tr] show "print_calls tr = []" by simp
next
  assume "\<not> path_exists env (OUTPUT_PATH env) \<and> load_template env = Inl e"
  then show "main env = Some ([PathExists (OUTPUT_PATH env), OpenRead (TEMPLATE_PATH env),
                          Print (''Error: '' @ str_error e)], 0)"
    by (simp add: main_def main_try_def)
next
  assume "\<not> path_exists env (OUTPUT_PATH env) \<and> load_template env = Inr template
        \<and> get_commit_diff env = Inl e"
  then show "main env = Some ([PathExists (OUTPUT_PATH env), OpenRead (TEMPLATE_PATH env),
                          Run git_diff_cmd, Print (''Error: '' @ str_error e)], 0)"
    by (simp add: main_def main_try_def)
next
  assume "\<not> path_exists env (OUTPUT_PATH env) \<and> load_template env = Inr template
        \<and> subprocess_run_text (decode_output env) (run_git_diff env) = Inr result
        \<and> returncode result \<noteq> 0"
  then show "main env = Some ([PathExists (OUTPUT_PATH env), OpenRead (TEMPLATE_PATH env),
                          Run git_diff_cmd, Print ''Error: Failed to get git diff.''], 0)"
    by (simp add: main_def main_try_def get_commit_diff_def)
next
  assume "\<not> path_exists env (OUTPUT_PATH env) \<and> load_template env = Inr template
        \<and> get_commit_diff env = Inr commit_diff
        \<and> create_completion env template commit_diff = Inl e"
  then show "main env = Some ([PathExists (OUTPUT_PATH env), OpenRead (TEMPLATE_PATH env),
                          Run git_diff_cmd, CompletionCall template commit_diff,
                          Print (''Error: '' @ str_error e)], 0)"
    by (simp add: main_def main_try_def generate_readme_def)
next
  assume "\<not> path_exists env (OUTPUT_PATH env) \<and> load_template env = Inr template
        \<and> get_commit_diff env = Inr commit_diff
        \<and> create_completion env template commit_diff = Inr json_data
        \<and> json_to_markdown (container_str env) json_data = Inl e"
  then show "main env = Some ([PathExists (OUTPUT_PATH env), OpenRead (TEMPLATE_PATH env),
                          Run git_diff_cmd, CompletionCall template commit_diff,
                          Print (''Error: '' @ str_error e)], 0)"
    by (simp add: main_def main_try_def generate_readme_def)
next
  assume "\<not> path_exists env (OUTPUT_PATH env) \<and> load_template env = Inr template
        \<and> get_commit_diff env = Inr commit_diff
        \<and> create_completion env template commit_diff = Inr json_data
        \<and> json_to_markdown (container_str env) json_data = Inr readme_content
        \<and> write_file env (OUTPUT_PATH env) readme_content = Inl e"
  then show "main env = Some ([PathExists (OUTPUT_PATH env), OpenRead (TEMPLATE_PATH env),
                          Run git_diff_cmd, CompletionCall template commit_diff,
                          OpenWrite (OUTPUT_PATH env) readme_content,
                          Print (''Error: '' @ str_error e)], 0)"
    by (simp add: main_def main_try_def generate_readme_def)
next
  assume "\<not> path_exists env (OUTPUT_PATH env) \<and> load_template env = Inr template
        \<and> get_commit_diff env = Inr commit_diff
        \<and> create_completion env template commit_diff = Inr json_data
        \<and> json_to_markdown (container_str env) json_data = Inr readme_content
        \<and> write_file env (OUTPUT_PATH env) readme_content = Inr ()
        \<and> get_unique_branch_name env (BRANCH_NAME env)
             [PathExists (OUTPUT_PATH env), OpenRead (TEMPLATE_PATH env), Run git_diff_cmd,
              CompletionCall template commit_diff, OpenWrite (OUTPUT_PATH env) readme_content]
            = Some (Inl e, probed)"
  then show "main env = Some (probed @ [Print (''Error: '' @ str_error e)], 0)"
    by (simp add: main_def main_try_def generate_readme_def commit_and_push_def)
next
  assume a: "\<not> path_exists env (OUTPUT_PATH env) \<and> load_template env = Inr template
        \<and> get_commit_diff env = Inr commit_diff
        \<and> create_completion env template commit_diff = Inr json_data
        \<and> json_to_markdown (container_str env) json_data = Inr readme_content
        \<and> write_file env (OUTPUT_PATH env) readme_content = Inr ()
        \<and> get_unique_branch_name env (BRANCH_NAME env)
             [PathExists (OUTPUT_PATH env), OpenRead (TEMPLATE_PATH env), Run git_diff_cmd,
              CompletionCall template commit_diff, OpenWrite (OUTPUT_PATH env) readme_content]
            = Some (Inr unique_branch_name, probed)
        \<and> publish_commands env unique_branch_name (OUTPUT_PATH env) = succeeded @ cmd # rest
        \<and> (\<forall>c \<in> set succeeded. run_checked env c = Inr ())
        \<and> run_checked env cmd = Inl e"
  then have "run_all (run_checked env) (publish_commands env unique_branch_name (OUTPUT_PATH env)) probed
               = (Inl e, probed @ map Run (succeeded @ [cmd]))"
    by (simp add: run_all_fails)
  with a show "main env = Some (probed @ map Run (succeeded @ [cmd])
                           @ [Print (''Error: '' @ str_error e)], 0)"
    by (simp add: main_def main_try_def generate_readme_def commit_and_push_def)
next
  assume a: "\<not> path_exists env (OUTPUT_PATH env) \<and> load_template env = Inr template
        \<and> get_commit_diff env = Inr commit_diff
        \<and> create_completion env template commit_diff = Inr json_data
        \<and> json_to_markdown (container_str env) json_data = Inr readme_content
        \<and> write_file env (OUTPUT_PATH env) readme_content = Inr ()
        \<and> get_unique_branch_name env (BRANCH_NAME env)
             [PathExists (OUTPUT_PATH env), OpenRead (TEMPLATE_PATH env), Run git_diff_cmd,
              CompletionCall template commit_diff, OpenWrite (OUTPUT_PATH env) readme_content]
            = Some (Inr unique_branch_name, probed)
        \<and> (\<forall>c \<in> set (publish_commands env unique_branch_name (OUTPUT_PATH env)).
               run_checked env c = Inr ())"
  then have "run_all (run_checked env) (publish_commands env unique_branch_name (OUTPUT_PATH env)) probed
               = (Inr (), probed @ map Run (publish_commands env unique_branch_name (OUTPUT_PATH env)))"
    by (simp add: run_all_ok)
  with a show "main env = Some (probed
                           @ map Run (publish_commands env unique_branch_name (OUTPUT_PATH env)), 0)"
    by (simp add: main_def main_try_def generate_readme_def commit_and_push_def)
qed

theorem errors_reported_once_witness:
  "main (sample_env False 128)
     = Some ([PathExists ''README.md'', OpenRead ''template.json'',
              Run [''git'', ''diff'', ''HEAD~1'', ''HEAD''],
              Print ''Error: Failed to get git diff.''], 0)
   \<and> main sample_env_no_completion
     = Some ([PathExists ''README.md'', OpenRead ''template.json'',
              Run [''git'', ''diff'', ''HEAD~1'', ''HEAD''],
              CompletionCall (JDict []) ''diff'',
              Print ''Error: no connection''], 0)
   \<and> main sample_env_push_fails
     = Some ([PathExists ''README.md'', OpenRead ''template.json'',
              Run [''git'', ''diff'', ''HEAD~1'', ''HEAD''],
              CompletionCall (JDict []) ''diff'',
              OpenWrite ''README.md'' (''# Foo\<newline>'' @ ''\<newline>''),
              Run [''git'', ''branch'', ''--list'', ''doc-update''],
              Run [''git'', ''branch'', ''--list'', ''doc-update-1''],
              Run [''git'', ''branch'', ''--list'', ''doc-update-2''],
              Run [''git'', ''config'', ''--local'', ''user.name'', ''github-actions[bot]''],
              Run [''git'', ''config'', ''--local'', ''user.email'',
                   ''github-actions[bot]@users.noreply.github.com''],
              Run [''git'', ''remote'', ''set-url'', ''origin'',
                   ''https://github-actions:t@github.com/o/r''],
              Run [''git'', ''checkout'', ''-b'', ''doc-update-2''],
              Run [''git'', ''add'', ''README.md''],
              Run [''git'', ''commit'', ''-m'', ''Update README.md with latest documentation''],
              Run [''git'', ''push'', ''origin'', ''doc-update-2''],
              Print ''Error: push failed''], 0)"
proof (intro conjI)
  have "subprocess_run_text (decode_output (sample_env False 128)) (run_git_diff (sample_env False 128))
          = Inr \<lparr> returncode = 128, stdout = ''diff'', stderr = '''' \<rparr>"
    by (simp add: sample_env_fields subprocess_run_text_def translate_newlines_def replace_cr_def)
  with errors_reported_once [where env = "sample_env False 128" and template = "JDict []"
      and result = "\<lparr> returncode = 128, stdout = ''diff'', stderr = '''' \<rparr>"]
  show "main (sample_env False 128)
     = Some ([PathExists ''README.md'', OpenRead ''template.json'',
              Run [''git'', ''diff'', ''HEAD~1'', ''HEAD''],
              Print ''Error: Failed to get git diff.''], 0)"
    by (simp add: sample_env_fields git_diff_cmd_def)
next
  have d: "get_commit_diff sample_env_no_completion = Inr ''diff''"
    by (rule sample_get_commit_diff) (simp_all add: sample_env_no_completion_def sample_env_fields)
  with errors_reported_once [where env = sample_env_no_completion and template = "JDict []"
      and commit_diff = "''diff''" and e = "EnvironmentError ''no connection''"]
  show "main sample_env_no_completion
     = Some ([PathExists ''README.md'', OpenRead ''template.json'',
              Run [''git'', ''diff'', ''HEAD~1'', ''HEAD''],
              CompletionCall (JDict []) ''diff'',
              Print ''Error: no connection''], 0)"
    by (simp add: sample_env_no_completion_def sample_env_fields git_diff_cmd_def)
next
  let ?E = sample_env_push_fails
  let ?start = "[PathExists ''README.md'', OpenRead ''template.json'',
              Run [''git'', ''diff'', ''HEAD~1'', ''HEAD''],
              CompletionCall (JDict []) ''diff'',
              OpenWrite ''README.md'' (''# Foo\<newline>'' @ ''\<newline>'')]"
  have f: "OUTPUT_PATH ?E = ''README.md''" "TEMPLATE_PATH ?E = ''template.json''"
    "BRANCH_NAME ?E = ''doc-update''" "\<not> path_exists ?E ''README.md''"
    "load_template ?E = Inr (JDict [])"
    "create_completion ?E (JDict []) ''diff'' = Inr (JDict [(''title'', JStr ''Foo'')])"
    "container_str ?E = sample_container_str"
    "write_file ?E ''README.md'' (''# Foo\<newline>'' @ ''\<newline>'') = Inr ()"
    by (simp_all add: sample_env_push_fails_def sample_env_fields)
  have d: "get_commit_diff ?E = Inr ''diff''"
    by (rule sample_get_commit_diff) (simp_all add: sample_env_push_fails_def sample_env_fields)
  have j: "json_to_markdown sample_container_str (JDict [(''title'', JStr ''Foo'')])
             = Inr (''# Foo\<newline>'' @ ''\<newline>'')"
    by (simp add: json_to_markdown.simps)
  have p: "get_unique_branch_name ?E ''doc-update'' ?start
             = Some (Inr ''doc-update-2'',
                     ?start @ [branch_probe ''doc-update'', branch_probe ''doc-update-1'',
                               branch_probe ''doc-update-2''])"
    by (rule sample_probe) (simp_all add: sample_env_push_fails_def sample_env_fields)
  have c: "publish_commands ?E ''doc-update-2'' ''README.md''
             = [[''git'', ''config'', ''--local'', ''user.name'', ''github-actions[bot]''],
                [''git'', ''config'', ''--local'', ''user.email'',
                 ''github-actions[bot]@users.noreply.github.com''],
                [''git'', ''remote'', ''set-url'', ''origin'',
                 ''https://github-actions:t@github.com/o/r''],
                [''git'', ''checkout'', ''-b'', ''doc-update-2''],
                [''git'', ''add'', ''README.md''],
                [''git'', ''commit'', ''-m'', ''Update README.md with latest documentation'']]
               @ [''git'', ''push'', ''origin'', ''doc-update-2''] # []"
    by (simp add: publish_commands_def set_git_remote_with_token_def sample_env_push_fails_def
          sample_env_fields)
  have ok: "\<forall>c \<in> set [[''git'', ''config'', ''--local'', ''user.name'', ''github-actions[bot]''],
                [''git'', ''config'', ''--local'', ''user.email'',
                 ''github-actions[bot]@users.noreply.github.com''],
                [''git'', ''remote'', ''set-url'', ''origin'',
                 ''https://github-actions:t@github.com/o/r''],
                [''git'', ''checkout'', ''-b'', ''doc-update-2''],
                [''git'', ''add'', ''README.md''],
                [''git'', ''commit'', ''-m'', ''Update README.md with latest documentation'']].
              run_checked ?E c = Inr ()"
    by (simp add: sample_env_push_fails_def)
  have bad: "run_checked ?E [''git'', ''push'', ''origin'', ''doc-update-2'']
               = Inl (CalledProcessError ''push failed'')"
    by (simp add: sample_env_push_fails_def)
  note t = errors_reported_once [where env = ?E and template = "JDict []" and commit_diff = "''diff''"
      and json_data = "JDict [(''title'', JStr ''Foo'')]"
      and readme_content = "''# Foo\<newline>'' @ ''\<newline>''"
      and unique_branch_name = "''doc-update-2''"
      and probed = "?start @ [branch_probe ''doc-update'', branch_probe ''doc-update-1'',
                               branch_probe ''doc-update-2'']"
      and succeeded = "[[''git'', ''config'', ''--local'', ''user.name'', ''github-actions[bot]''],
                [''git'', ''config'', ''--local'', ''user.email'',
                 ''github-actions[bot]@users.noreply.github.com''],
                [''git'', ''remote'', ''set-url'', ''origin'',
                 ''https://github-actions:t@github.com/o/r''],
                [''git'', ''checkout'', ''-b'', ''doc-update-2''],
                [''git'', ''add'', ''README.md''],
                [''git'', ''commit'', ''-m'', ''Update README.md with latest documentation'']]"
      and cmd = "[''git'', ''push'', ''origin'', ''doc-update-2'']" and rest = "[]"
      and e = "CalledProcessError ''push failed''"]
  from t f d j p c ok bad
  show "main ?E
     = Some ([PathExists ''README.md'', OpenRead ''template.json'',
              Run [''git'', ''diff'', ''HEAD~1'', ''HEAD''],
              CompletionCall (JDict []) ''diff'',
              OpenWrite ''README.md'' (''# Foo\<newline>'' @ ''\<newline>''),
              Run [''git'', ''branch'', ''--list'', ''doc-update''],
              Run [''git'', ''branch'', ''--list'', ''doc-update-1''],
              Run [''git'', ''branch'', ''--list'', ''doc-update-2''],
              Run [''git'', ''config'', ''--local'', ''user.name'', ''github-actions[bot]''],
              Run [''git'', ''config'', ''--local'', ''user.email'',
                   ''github-actions[bot]@users.noreply.github.com''],
              Run [''git'', ''remote'', ''set-url'', ''origin'',
                   ''https://github-actions:t@github.com/o/r''],
              Run [''git'', ''checkout'', ''-b'', ''doc-update-2''],
              Run [''git'', ''add'', ''README.md''],
              Run [''git'', ''commit'', ''-m'', ''Update README.md with latest documentation''],
              Run [''git'', ''push'', ''origin'', ''doc-update-2''],
              Print ''Error: push failed''], 0)"
    by (simp add: branch_probe_def git_diff_cmd_def)
qed

end
